theory Spec2Isabelle
  imports Complex_Main
begin

section \<open>Data model\<close>

text \<open>
  The booking subsystem of the hotel backend keeps its rows in two tables of an external
  store: \<open>rooms\<close> (read only here) and \<open>bookings\<close>. A booking row has exactly the columns
  that \<open>BookingService\<close> writes (\<open>id, user_id, hotel_id, room_id, date, price, note,
  status, create_at\<close>). Identifiers, dates and statuses are the strings the service
  passes on; the \<open>note\<close> column (\<open>booking_note\<close> here) is nullable.
\<close>

record booking =
  booking_id :: string
  user_id :: string
  hotel_id :: string
  room_id :: string
  date :: string
  price :: real
  booking_note :: "string option"
  status :: string
  create_at :: string

text \<open>
  A row of \<open>rooms\<close>, with the columns the availability checks select. \<open>total_rooms\<close>
  is nullable; \<open>hotels\<close> is the embedded hotel (\<open>name_th\<close>, \<open>name_en\<close>) or null.
\<close>

record room =
  total_rooms :: "int option"
  name_th :: string
  name_en :: string
  hotels :: "(string \<times> string) option"

text \<open>
  The store as the service sees it. \<open>rooms_table\<close> is keyed by the room id,
  \<open>bookings_table\<close> is the list of rows in insertion order, and \<open>single_error\<close> is the
  message the store client reports when \<open>.single()\<close> does not find exactly one row
  (the client is not part of the repository, so the text is a parameter).
\<close>

record db =
  rooms_table :: "string \<rightharpoonup> room"
  bookings_table :: "booking list"
  single_error :: string

section \<open>Errors and their messages\<close>

text \<open>
  One constructor for each \<open>throw new Error(...)\<close> of the two services, carrying the
  values the message template interpolates. The service returns
  \<open>{ success: false, error: error.message }\<close>; \<open>error_message\<close> renders that text.
\<close>

datatype error =
    RoomNotFound string
  | RoomFullyBooked string "int option" nat
  | RoomsFullyBooked "(string \<times> int option \<times> nat) list"
  | DatesNotArray
  | InvalidStatus
  | BookingNotFound
  | GetBookingFailed string
  | UpdateFailed string
  | CancelFailed string
  | RoomTotalNotSet

fun show_nat :: "nat \<Rightarrow> string" where
  "show_nat n =
     (if n < 10 then [''0123456789'' ! n]
      else show_nat (n div 10) @ [''0123456789'' ! (n mod 10)])"

declare show_nat.simps [simp del]

definition show_int :: "int \<Rightarrow> string" where
  "show_int i = (if i < 0 then ''-'' @ show_nat (nat (- i)) else show_nat (nat i))"

text \<open>A nullable number inside a template literal: \<open>null\<close> prints as \<open>null\<close>.\<close>

definition show_nullable :: "int option \<Rightarrow> string" where
  "show_nullable v = (case v of None \<Rightarrow> ''null'' | Some i \<Rightarrow> show_int i)"

fun join :: "string \<Rightarrow> string list \<Rightarrow> string" where
  "join sep [] = []"
| "join sep [x] = x"
| "join sep (x # y # ys) = x @ sep @ join sep (y # ys)"

definition unavailable_item :: "string \<times> int option \<times> nat \<Rightarrow> string" where
  "unavailable_item item =
     (case item of (dt, totalRooms, currentBookings) \<Rightarrow>
        dt @ '' (Available: '' @ show_nullable totalRooms @ '', Current: ''
          @ show_nat currentBookings @ '')'')"

fun error_message :: "error \<Rightarrow> string" where
  "error_message (RoomNotFound m) = ''Room not found: '' @ m"
| "error_message (RoomFullyBooked dt totalRooms currentBookings) =
     ''Room is fully booked for '' @ dt @ ''. Available rooms: '' @ show_nullable totalRooms
       @ '', Current bookings: '' @ show_nat currentBookings"
| "error_message (RoomsFullyBooked items) =
     ''Room is fully booked for these dates: '' @ join '', '' (map unavailable_item items)"
| "error_message DatesNotArray = ''dates must be a non-empty array''"
| "error_message InvalidStatus =
     ''Status must be either '' @ [CHR 0x22] @ ''active'' @ [CHR 0x22] @ '' or ''
       @ [CHR 0x22] @ ''cancel'' @ [CHR 0x22]"
| "error_message BookingNotFound = ''Booking not found''"
| "error_message (GetBookingFailed m) = ''Booking not found: '' @ m"
| "error_message (UpdateFailed m) = ''Failed to update booking: '' @ m"
| "error_message (CancelFailed m) = ''Failed to cancel booking: '' @ m"
| "error_message RoomTotalNotSet = ''Room total count not set - cannot check availability''"

section \<open>JavaScript helpers\<close>

text \<open>Truthiness of a value that is a string or undefined: only a non-empty string is truthy.\<close>

definition truthy :: "string option \<Rightarrow> bool" where
  "truthy v = (case v of None \<Rightarrow> False | Some s \<Rightarrow> s \<noteq> [])"


text \<open>A nullable number in arithmetic and comparison: \<open>null\<close> converts to \<open>0\<close>.\<close>

definition to_number :: "int option \<Rightarrow> int" where
  "to_number v = (case v of None \<Rightarrow> 0 | Some i \<Rightarrow> i)"

text \<open>\<open>String.prototype.includes\<close>.\<close>

fun starts_with :: "string \<Rightarrow> string \<Rightarrow> bool" where
  "starts_with s [] = True"
| "starts_with [] (c # cs) = False"
| "starts_with (x # xs) (c # cs) = (x = c \<and> starts_with xs cs)"

fun includes_str :: "string \<Rightarrow> string \<Rightarrow> bool" where
  "includes_str [] t = (t = [])"
| "includes_str (x # xs) t = (starts_with (x # xs) t \<or> includes_str xs t)"

text \<open>
  The pattern \<open>/^[0-9a-f]{8}-[0-9a-f]{4}-[0-9a-f]{4}-[0-9a-f]{4}-[0-9a-f]{12}$/i\<close>:
  36 characters, dashes at offsets 8, 13, 18 and 23, hexadecimal digits of either case
  elsewhere.
\<close>

definition is_hex :: "char \<Rightarrow> bool" where
  "is_hex c = (c \<in> set ''0123456789abcdefABCDEF'')"

fun uuid_shape :: "nat \<Rightarrow> string \<Rightarrow> bool" where
  "uuid_shape i [] = (i = 36)"
| "uuid_shape i (c # cs) =
     (i < 36 \<and> (if i = 8 \<or> i = 13 \<or> i = 18 \<or> i = 23 then c = CHR ''-'' else is_hex c)
       \<and> uuid_shape (Suc i) cs)"

definition uuidRegex_test :: "string \<Rightarrow> bool" where
  "uuidRegex_test s = uuid_shape 0 s"

section \<open>The store client\<close>

text \<open>
  \<open>.single()\<close> succeeds when the request yields exactly one row and fails with the
  client's message otherwise.
\<close>

definition single :: "db \<Rightarrow> 'a list \<Rightarrow> string + 'a" where
  "single d rows = (case rows of [r] \<Rightarrow> Inr r | _ \<Rightarrow> Inl (single_error d))"

text \<open>
  \<open>.update(fields).eq("id", id).select().single()\<close>: the rows whose id matches are
  rewritten and returned; when they are not exactly one row the request fails and the
  table is left as it was.
\<close>

definition update_single ::
  "db \<Rightarrow> string \<Rightarrow> (booking \<Rightarrow> booking) \<Rightarrow> (string + booking) \<times> db" where
  "update_single d i f =
     (case single d (map f (filter (\<lambda>b. booking_id b = i) (bookings_table d))) of
        Inl m \<Rightarrow> (Inl m, d)
      | Inr r \<Rightarrow>
          (Inr r, d\<lparr>bookings_table :=
                     map (\<lambda>b. if booking_id b = i then f b else b) (bookings_table d)\<rparr>))"

section \<open>BookingService\<close>

record availability =
  isAvailable :: bool
  totalRooms :: "int option"
  currentBookings :: nat
  availableRooms :: int


text \<open>
  \<open>checkRoomAvailability(room_id, date, excludeBookingId = null)\<close>. The room is read with
  \<open>.single()\<close>; the count query filters on \<open>room_id\<close>, \<open>date\<close> and
  \<open>status = "active"\<close>, and on \<open>id \<noteq> excludeBookingId\<close> when that argument is truthy.
\<close>

definition checkRoomAvailability ::
  "db \<Rightarrow> string \<Rightarrow> string \<Rightarrow> string option \<Rightarrow> error + availability" where
  "checkRoomAvailability d rid dt excludeBookingId =
     (case rooms_table d rid of
        None \<Rightarrow> Inl (RoomNotFound (single_error d))
      | Some roomData \<Rightarrow>
          (let total_v = total_rooms roomData;
               query = filter (\<lambda>b. room_id b = rid \<and> date b = dt \<and> status b = ''active'')
                         (bookings_table d);
               query' = (case excludeBookingId of
                           None \<Rightarrow> query
                         | Some ex \<Rightarrow>
                             if ex = [] then query
                             else filter (\<lambda>b. booking_id b \<noteq> ex) query);
               count = length query'
           in Inr \<lparr>isAvailable = (int count < to_number total_v),
                   totalRooms = total_v,
                   currentBookings = count,
                   availableRooms = to_number total_v - int count\<rparr>))"

text \<open>The argument of \<open>createBooking\<close>, as the controller builds it.\<close>

record booking_data =
  bd_user_id :: string
  bd_hotel_id :: string
  bd_room_id :: string
  bd_date :: string
  bd_price :: real
  bd_note :: "string option"

text \<open>\<open>note || null\<close>.\<close>

definition note_or_null :: "string option \<Rightarrow> string option" where
  "note_or_null n = (case n of None \<Rightarrow> None | Some s \<Rightarrow> if s = [] then None else Some s)"

text \<open>
  \<open>createBooking(bookingData)\<close>. \<open>uuid\<close> is the value of \<open>uuidv4()\<close> and \<open>now\<close> that of
  \<open>new Date().toISOString()\<close> in this call. The store accepts the insert and returns the
  new row.
\<close>

definition createBooking ::
  "string \<Rightarrow> string \<Rightarrow> db \<Rightarrow> booking_data \<Rightarrow> (error + booking) \<times> db" where
  "createBooking uuid now d bd =
     (case checkRoomAvailability d (bd_room_id bd) (bd_date bd) None of
        Inl e \<Rightarrow> (Inl e, d)
      | Inr availabilityCheck \<Rightarrow>
          if \<not> isAvailable availabilityCheck
          then (Inl (RoomFullyBooked (bd_date bd) (totalRooms availabilityCheck)
                       (currentBookings availabilityCheck)), d)
          else
            (let newBooking =
                   \<lparr>booking_id = uuid, user_id = bd_user_id bd, hotel_id = bd_hotel_id bd,
                    room_id = bd_room_id bd, date = bd_date bd, price = bd_price bd,
                    booking_note = note_or_null (bd_note bd), status = ''active'', create_at = now\<rparr>
             in (Inr newBooking, d\<lparr>bookings_table := bookings_table d @ [newBooking]\<rparr>)))"

record multi_booking_data =
  mb_user_id :: string
  mb_hotel_id :: string
  mb_room_id :: string
  mb_dates :: "string list"
  mb_price :: real
  mb_note :: "string option"

text \<open>
  The validation loop of \<open>createMultipleBookings\<close>: every date is checked in turn, a
  failed check throws, an unavailable date is pushed on \<open>unavailableDates\<close>.
\<close>

fun check_dates ::
  "db \<Rightarrow> string \<Rightarrow> string list \<Rightarrow> (string \<times> int option \<times> nat) list
     \<Rightarrow> error + (string \<times> int option \<times> nat) list" where
  "check_dates d rid [] unavailableDates = Inr unavailableDates"
| "check_dates d rid (dt # dts) unavailableDates =
     (case checkRoomAvailability d rid dt None of
        Inl e \<Rightarrow> Inl e
      | Inr availabilityCheck \<Rightarrow>
          check_dates d rid dts
            (if \<not> isAvailable availabilityCheck
             then unavailableDates @
                    [(dt, totalRooms availabilityCheck, currentBookings availabilityCheck)]
             else unavailableDates))"

text \<open>
  \<open>dates.map((date) => ({ id: uuidv4(), ..., create_at: new Date().toISOString() }))\<close>:
  \<open>uuids k\<close> and \<open>nows k\<close> are the values generated for the row of index \<open>k\<close>.
\<close>

fun bookingsToInsert ::
  "(nat \<Rightarrow> string) \<Rightarrow> (nat \<Rightarrow> string) \<Rightarrow> multi_booking_data \<Rightarrow> nat \<Rightarrow> string list
     \<Rightarrow> booking list" where
  "bookingsToInsert uuids nows mb k [] = []"
| "bookingsToInsert uuids nows mb k (dt # dts) =
     \<lparr>booking_id = uuids k, user_id = mb_user_id mb, hotel_id = mb_hotel_id mb,
      room_id = mb_room_id mb, date = dt, price = mb_price mb,
      booking_note = note_or_null (mb_note mb), status = ''active'', create_at = nows k\<rparr>
       # bookingsToInsert uuids nows mb (Suc k) dts"

text \<open>
  \<open>createMultipleBookings(bookingData)\<close>. \<open>dates\<close> is an array here, so of the guard
  \<open>!Array.isArray(dates) || dates.length === 0\<close> the empty array remains.
\<close>

definition createMultipleBookings ::
  "(nat \<Rightarrow> string) \<Rightarrow> (nat \<Rightarrow> string) \<Rightarrow> db \<Rightarrow> multi_booking_data
     \<Rightarrow> (error + booking list) \<times> db" where
  "createMultipleBookings uuids nows d mb =
     (if mb_dates mb = [] then (Inl DatesNotArray, d)
      else
        (case check_dates d (mb_room_id mb) (mb_dates mb) [] of
           Inl e \<Rightarrow> (Inl e, d)
         | Inr unavailableDates \<Rightarrow>
             if length unavailableDates > 0 then (Inl (RoomsFullyBooked unavailableDates), d)
             else
               (let rows = bookingsToInsert uuids nows mb 0 (mb_dates mb)
                in (Inr rows, d\<lparr>bookings_table := bookings_table d @ rows\<rparr>))))"





text \<open>\<open>cancelBooking(id)\<close>: \<open>.update({ status: "cancel" }).eq("id", id).select().single()\<close>.\<close>

definition cancelBooking :: "db \<Rightarrow> string \<Rightarrow> (error + booking) \<times> db" where
  "cancelBooking d i =
     (case update_single d i (\<lambda>b. b\<lparr>status := ''cancel''\<rparr>) of
        (Inl m, d') \<Rightarrow> (Inl (CancelFailed m), d')
      | (Inr b, d') \<Rightarrow> (Inr b, d'))"

section \<open>RoomsService\<close>

record room_availability =
  ra_roomId :: string
  ra_roomName :: "string \<times> string"
  ra_hotelName :: "(string \<times> string) option"
  ra_totalRooms :: int
  ra_bookedRooms :: nat
  ra_availableRooms :: int
  ra_isAvailable :: bool
  ra_checkInDate :: string
  ra_checkOutDate :: string

text \<open>
  \<open>RoomsService.checkRoomAvailability(roomId, checkInDate, checkOutDate)\<close>, behind
  \<open>GET /api/rooms/:id/availability\<close>. Its count query filters on \<open>room_id\<close>, on
  \<open>status in ("confirmed", "checked_in")\<close> and on the columns \<open>check_in\<close> and
  \<open>check_out\<close>; \<open>BookingService\<close> neither writes nor reads those two columns, so
  that last filter is the parameter \<open>overlaps\<close>.
\<close>

definition RoomsService_checkRoomAvailability ::
  "(booking \<Rightarrow> string \<Rightarrow> string \<Rightarrow> bool) \<Rightarrow> db \<Rightarrow> string \<Rightarrow> string \<Rightarrow> string
     \<Rightarrow> error + room_availability" where
  "RoomsService_checkRoomAvailability overlaps d roomId checkInDate checkOutDate =
     (case rooms_table d roomId of
        None \<Rightarrow> Inl (RoomNotFound (single_error d))
      | Some rm \<Rightarrow>
          (case total_rooms rm of
             None \<Rightarrow> Inl RoomTotalNotSet
           | Some n \<Rightarrow>
               if n = 0 then Inl RoomTotalNotSet
               else
                 (let bookedRooms =
                        length (filter (\<lambda>b. room_id b = roomId
                                  \<and> (status b = ''confirmed'' \<or> status b = ''checked_in'')
                                  \<and> overlaps b checkInDate checkOutDate) (bookings_table d));
                      available = n - int bookedRooms
                  in Inr \<lparr>ra_roomId = roomId,
                          ra_roomName = (name_th rm, name_en rm),
                          ra_hotelName = hotels rm,
                          ra_totalRooms = n,
                          ra_bookedRooms = bookedRooms,
                          ra_availableRooms = max 0 available,
                          ra_isAvailable = (available > 0),
                          ra_checkInDate = checkInDate,
                          ra_checkOutDate = checkOutDate\<rparr>)))"

section \<open>BookingController\<close>

datatype payload = Row booking | Rows "booking list"

record response =
  res_status :: nat
  res_success :: bool
  res_message :: string
  res_errors :: "string list option"
  res_data :: "payload option"
  res_count :: "nat option"
  res_dates :: "string list option"

definition failure :: "nat \<Rightarrow> string \<Rightarrow> response" where
  "failure code msg =
     \<lparr>res_status = code, res_success = False, res_message = msg, res_errors = None,
      res_data = None, res_count = None, res_dates = None\<rparr>"



text \<open>The body of \<open>POST /api/bookings\<close>; \<open>None\<close> is a field that is absent.\<close>

record create_body =
  cb_user_id :: "string option"
  cb_hotel_id :: "string option"
  cb_room_id :: "string option"
  cb_date :: "string option"
  cb_dates :: "string list option"
  cb_price :: "real option"
  cb_note :: "string option"

definition isMultipleDates :: "create_body \<Rightarrow> bool" where
  "isMultipleDates body = (case cb_dates body of None \<Rightarrow> False | Some ds \<Rightarrow> length ds > 0)"

definition isSingleDate :: "create_body \<Rightarrow> bool" where
  "isSingleDate body = (truthy (cb_date body) \<and> \<not> isMultipleDates body)"

text \<open>\<open>!price || price <= 0\<close>.\<close>

definition price_rejected :: "real option \<Rightarrow> bool" where
  "price_rejected p = (case p of None \<Rightarrow> True | Some x \<Rightarrow> x = 0 \<or> x \<le> 0)"

text \<open>\<open>v && !uuidRegex.test(v)\<close>.\<close>

definition fails_uuid :: "string option \<Rightarrow> bool" where
  "fails_uuid v = (truthy v \<and> (case v of None \<Rightarrow> False | Some s \<Rightarrow> \<not> uuidRegex_test s))"

text \<open>
  \<open>new Date(s)\<close> is read through \<open>parseDate\<close>, which gives \<open>getTime()\<close> and \<open>None\<close>
  where that is NaN; \<open>today\<close> is the time value of the local midnight. A comparison
  with NaN is false.
\<close>

definition before :: "int option \<Rightarrow> int \<Rightarrow> bool" where
  "before t today = (case t of None \<Rightarrow> False | Some x \<Rightarrow> x < today)"

definition date_errors :: "(string \<Rightarrow> int option) \<Rightarrow> int \<Rightarrow> string \<Rightarrow> string list" where
  "date_errors parseDate today dt =
     (if parseDate dt = None then [''date must be valid date''] else [])
     @ (if before (parseDate dt) today then [''date cannot be in the past''] else [])"

fun dates_errors :: "(string \<Rightarrow> int option) \<Rightarrow> int \<Rightarrow> nat \<Rightarrow> string list \<Rightarrow> string list" where
  "dates_errors parseDate today index [] = []"
| "dates_errors parseDate today index (dateStr # rest) =
     (if parseDate dateStr = None then [''dates['' @ show_nat index @ ''] must be valid date'']
      else if before (parseDate dateStr) today
      then [''dates['' @ show_nat index @ ''] cannot be in the past'']
      else [])
     @ dates_errors parseDate today (Suc index) rest"

definition create_errors :: "(string \<Rightarrow> int option) \<Rightarrow> int \<Rightarrow> create_body \<Rightarrow> string list" where
  "create_errors parseDate today body =
     (if \<not> truthy (cb_user_id body) then [''user_id is required''] else [])
     @ (if \<not> truthy (cb_hotel_id body) then [''hotel_id is required''] else [])
     @ (if \<not> truthy (cb_room_id body) then [''room_id is required''] else [])
     @ (if price_rejected (cb_price body) then [''price must be greater than 0''] else [])
     @ (if fails_uuid (cb_user_id body) then [''user_id must be valid UUID''] else [])
     @ (if fails_uuid (cb_hotel_id body) then [''hotel_id must be valid UUID''] else [])
     @ (if fails_uuid (cb_room_id body) then [''room_id must be valid UUID''] else [])
     @ (if isSingleDate body
        then (case cb_date body of None \<Rightarrow> [] | Some dt \<Rightarrow> date_errors parseDate today dt)
        else [])
     @ (if isMultipleDates body
        then (case cb_dates body of
                None \<Rightarrow> []
              | Some ds \<Rightarrow>
                  (if length ds > 30 then [''maximum 30 dates allowed per booking''] else [])
                  @ dates_errors parseDate today 0 ds
                  @ (if length (remdups ds) \<noteq> length ds
                     then [''duplicate dates are not allowed''] else []))
        else [])"



definition cancel_failed :: "error \<Rightarrow> response" where
  "cancel_failed e =
     (if includes_str (error_message e) ''not found'' then failure 404 (error_message e)
      else failure 500 (error_message e))"







text \<open>\<open>BookingController.cancelBooking\<close>.\<close>

definition BookingController_cancelBooking :: "db \<Rightarrow> string \<Rightarrow> response \<times> db" where
  "BookingController_cancelBooking d i =
     (if \<not> uuidRegex_test i then (failure 400 ''Invalid booking ID format'', d)
      else
        (case cancelBooking d i of
           (Inl e, d') \<Rightarrow> (cancel_failed e, d')
         | (Inr row, d') \<Rightarrow>
             (\<lparr>res_status = 200, res_success = True,
               res_message = ''Booking cancelled successfully'', res_errors = None,
               res_data = Some (Row row), res_count = None, res_dates = None\<rparr>, d')))"

section \<open>Sequences of engine operations\<close>




text \<open>The number of active bookings of a room on a date.\<close>

definition active_count :: "db \<Rightarrow> string \<Rightarrow> string \<Rightarrow> nat" where
  "active_count d rid dt =
     length (filter (\<lambda>b. room_id b = rid \<and> date b = dt \<and> status b = ''active'')
               (bookings_table d))"

section \<open>Terms of the specification\<close>



text \<open>
  A malformed request, in the words of the error taxonomy: an identifier that is missing
  or not UUID-shaped, a price that is missing or not greater than zero, a date that does
  not parse or lies before today, more than 30 dates, duplicate dates. \<open>reports r m\<close>
  says that the response \<open>r\<close> lists the message \<open>m\<close> among its errors.
\<close>

definition bad_identifier :: "string option \<Rightarrow> bool" where
  "bad_identifier v = (case v of None \<Rightarrow> True | Some s \<Rightarrow> \<not> uuidRegex_test s)"

definition bad_price :: "real option \<Rightarrow> bool" where
  "bad_price p = (case p of None \<Rightarrow> True | Some x \<Rightarrow> x \<le> 0)"









section \<open>Example states\<close>

text \<open>
  Room \<open>R1\<close> with a given inventory, a table of given rows, and the message of the store
  client for a request that does not yield exactly one row.
\<close>

definition example_room :: "int option \<Rightarrow> room" where
  "example_room n = \<lparr>total_rooms = n, name_th = ''R1'', name_en = ''R1'', hotels = None\<rparr>"

definition example_db :: "int option \<Rightarrow> booking list \<Rightarrow> db" where
  "example_db n rows =
     \<lparr>rooms_table = [''R1'' \<mapsto> example_room n], bookings_table = rows,
      single_error = ''JSON object requested, multiple (or no) rows returned''\<rparr>"

definition example_booking :: "string \<Rightarrow> string \<Rightarrow> string \<Rightarrow> booking" where
  "example_booking i dt st =
     \<lparr>booking_id = i, user_id = ''U1'', hotel_id = ''H1'', room_id = ''R1'', date = dt,
      price = 1000, booking_note = None, status = st,
      create_at = ''2025-05-01T00:00:00.000Z''\<rparr>"

definition example_data :: "string option \<Rightarrow> booking_data" where
  "example_data n =
     \<lparr>bd_user_id = ''U1'', bd_hotel_id = ''H1'', bd_room_id = ''R1'', bd_date = ''2025-06-01'',
      bd_price = 1000, bd_note = n\<rparr>"

definition example_multi :: "string list \<Rightarrow> multi_booking_data" where
  "example_multi dts =
     \<lparr>mb_user_id = ''U1'', mb_hotel_id = ''H1'', mb_room_id = ''R1'', mb_dates = dts,
      mb_price = 500, mb_note = Some []\<rparr>"

definition example_uuids :: "nat \<Rightarrow> string" where
  "example_uuids k = ''N'' @ show_nat k"

definition example_nows :: "nat \<Rightarrow> string" where
  "example_nows k = ''2025-05-01T00:00:00.000Z''"









section \<open>The availability check\<close>

text \<open>
  C3. \<open>BookingService.checkRoomAvailability\<close> has no branch for a room without
  inventory. For \<open>total_rooms\<close> null or zero it returns a successful result with
  \<open>isAvailable = false\<close> (the comparison \<open>count < null\<close> is false), and \<open>createBooking\<close>
  then reports the room as fully booked. \<open>RoomsService.checkRoomAvailability\<close> on the
  same room throws "Room total count not set".
\<close>

theorem unset_capacity_reported_as_full:
  "checkRoomAvailability (example_db None []) ''R1'' ''2025-06-01'' None
     = Inr \<lparr>isAvailable = False, totalRooms = None, currentBookings = 0, availableRooms = 0\<rparr>
   \<and> checkRoomAvailability (example_db (Some 0) []) ''R1'' ''2025-06-01'' None
     = Inr \<lparr>isAvailable = False, totalRooms = Some 0, currentBookings = 0,
            availableRooms = 0\<rparr>
   \<and> fst (createBooking ''B1'' ''2025-05-01T00:00:00.000Z'' (example_db None [])
            \<lparr>bd_user_id = ''U1'', bd_hotel_id = ''H1'', bd_room_id = ''R1'',
             bd_date = ''2025-06-01'', bd_price = 1000, bd_note = None\<rparr>)
     = Inl (RoomFullyBooked ''2025-06-01'' None 0)
   \<and> RoomsService_checkRoomAvailability overlaps (example_db None []) ''R1''
       ''2025-06-01'' ''2025-06-02''
     = Inl RoomTotalNotSet"
  by (simp add: checkRoomAvailability_def example_db_def example_room_def to_number_def
        createBooking_def RoomsService_checkRoomAvailability_def Let_def)

text \<open>
  C4. For a room that exists and has \<open>total_rooms\<close> set, the check succeeds;
  \<open>currentBookings\<close> is the number of rows of that room and date with status
  \<open>active\<close> whose id differs from \<open>excludeBookingId\<close> when one is given (an id is a
  non-empty string), \<open>availableRooms = totalRooms - currentBookings\<close>, and
  \<open>isAvailable\<close> holds exactly when \<open>availableRooms > 0\<close>, that is when
  \<open>currentBookings < totalRooms\<close>.
\<close>

theorem checkRoomAvailability_counts:
  assumes "rooms_table d rid = Some rm" and "total_rooms rm = Some n" and "ex \<noteq> Some []"
  shows "\<exists>a. checkRoomAvailability d rid dt ex = Inr a
           \<and> totalRooms a = Some n
           \<and> currentBookings a =
               length (filter (\<lambda>b. room_id b = rid \<and> date b = dt \<and> status b = ''active''
                                 \<and> Some (booking_id b) \<noteq> ex) (bookings_table d))
           \<and> availableRooms a = n - int (currentBookings a)
           \<and> isAvailable a = (availableRooms a > 0)
           \<and> isAvailable a = (int (currentBookings a) < n)"
proof (cases ex)
  case None
  with assms show ?thesis
    by (simp add: checkRoomAvailability_def to_number_def Let_def)
next
  case (Some e)
  with assms have "e \<noteq> []" by simp
  have eq: "filter (\<lambda>b. booking_id b \<noteq> e)
              (filter (\<lambda>b. room_id b = rid \<and> date b = dt \<and> status b = ''active'')
                 (bookings_table d))
            = filter (\<lambda>b. room_id b = rid \<and> date b = dt \<and> status b = ''active''
                            \<and> Some (booking_id b) \<noteq> Some e) (bookings_table d)"
    by (auto intro!: filter_cong)
  show ?thesis using assms Some \<open>e \<noteq> []\<close>
    by (simp add: checkRoomAvailability_def to_number_def eq Let_def del: filter_filter)
qed

theorem checkRoomAvailability_counts_witness:
  "rooms_table (example_db (Some 2)
       [example_booking ''B1'' ''2025-06-01'' ''active'',
        example_booking ''B2'' ''2025-06-01'' ''active'',
        example_booking ''B3'' ''2025-06-01'' ''cancel'',
        example_booking ''B4'' ''2025-06-02'' ''active'']) ''R1'' = Some (example_room (Some 2))
   \<and> total_rooms (example_room (Some 2)) = Some 2
   \<and> Some ''B1'' \<noteq> Some []
   \<and> checkRoomAvailability (example_db (Some 2)
       [example_booking ''B1'' ''2025-06-01'' ''active'',
        example_booking ''B2'' ''2025-06-01'' ''active'',
        example_booking ''B3'' ''2025-06-01'' ''cancel'',
        example_booking ''B4'' ''2025-06-02'' ''active'']) ''R1'' ''2025-06-01'' (Some ''B1'')
      = Inr \<lparr>isAvailable = True, totalRooms = Some 2, currentBookings = 1,
             availableRooms = 1\<rparr>"
  using checkRoomAvailability_counts [of "example_db (Some 2)
       [example_booking ''B1'' ''2025-06-01'' ''active'',
        example_booking ''B2'' ''2025-06-01'' ''active'',
        example_booking ''B3'' ''2025-06-01'' ''cancel'',
        example_booking ''B4'' ''2025-06-02'' ''active'']" "''R1''" "example_room (Some 2)" 2
       "Some ''B1''" "''2025-06-01''"]
  by (simp add: example_db_def example_room_def example_booking_def checkRoomAvailability_def
        to_number_def Let_def)

section \<open>Writes through \<open>.single()\<close>\<close>

lemma single_one: "single d [r] = Inr r"
  by (simp add: single_def)

lemma single_nil: "single d [] = Inl (single_error d)"
  by (simp add: single_def)

lemma update_single_found:
  assumes "filter (\<lambda>x. booking_id x = i) (bookings_table d) = [b]"
  shows "update_single d i f =
           (Inr (f b), d\<lparr>bookings_table :=
                            map (\<lambda>x. if booking_id x = i then f x else x) (bookings_table d)\<rparr>)"
  using assms by (simp add: update_single_def single_one)

lemma update_single_missing:
  assumes "filter (\<lambda>x. booking_id x = i) (bookings_table d) = []"
  shows "update_single d i f = (Inl (single_error d), d)"
  using assms by (simp add: update_single_def single_nil)

lemma filter_id_after_update:
  assumes "\<And>x. booking_id (f x) = booking_id x"
  shows "filter (\<lambda>x. booking_id x = i) (map (\<lambda>x. if booking_id x = i then f x else x) rows)
           = map f (filter (\<lambda>x. booking_id x = i) rows)"
  using assms by (induction rows) auto

lemma filter_others_after_update:
  assumes "\<And>x. booking_id (f x) = booking_id x"
  shows "filter (\<lambda>x. booking_id x \<noteq> i) (map (\<lambda>x. if booking_id x = i then f x else x) rows)
           = filter (\<lambda>x. booking_id x \<noteq> i) rows"
  using assms by (induction rows) auto

section \<open>Cancelling\<close>

text \<open>
  C6. \<open>cancelBooking\<close> is idempotent. When \<open>i\<close> is the id of exactly one row \<open>b\<close>, the
  first call succeeds and returns \<open>b\<close> with status \<open>cancel\<close>, which is then the row
  stored under \<open>i\<close>, every other row being as before; the second call succeeds too,
  returns the same row and leaves the whole table as the first call left it.
\<close>

theorem cancelBooking_idempotent:
  assumes "filter (\<lambda>x. booking_id x = i) (bookings_table d) = [b]"
  shows "\<exists>d1. cancelBooking d i = (Inr (b\<lparr>status := ''cancel''\<rparr>), d1)
           \<and> filter (\<lambda>x. booking_id x = i) (bookings_table d1) = [b\<lparr>status := ''cancel''\<rparr>]
           \<and> filter (\<lambda>x. booking_id x \<noteq> i) (bookings_table d1)
               = filter (\<lambda>x. booking_id x \<noteq> i) (bookings_table d)
           \<and> cancelBooking d1 i = (Inr (b\<lparr>status := ''cancel''\<rparr>), d1)"
proof -
  let ?f = "\<lambda>x::booking. x\<lparr>status := ''cancel''\<rparr>"
  let ?d1 = "d\<lparr>bookings_table :=
                 map (\<lambda>x. if booking_id x = i then ?f x else x) (bookings_table d)\<rparr>"
  have first: "cancelBooking d i = (Inr (?f b), ?d1)"
    by (simp add: cancelBooking_def update_single_found [OF assms])
  have row: "filter (\<lambda>x. booking_id x = i) (bookings_table ?d1) = [?f b]"
    using filter_id_after_update [of ?f i "bookings_table d"] assms by simp
  have others: "filter (\<lambda>x. booking_id x \<noteq> i) (bookings_table ?d1)
                  = filter (\<lambda>x. booking_id x \<noteq> i) (bookings_table d)"
    using filter_others_after_update [of ?f i "bookings_table d"] by simp
  have again: "map (\<lambda>x. if booking_id x = i then ?f x else x) (bookings_table ?d1)
                 = bookings_table ?d1"
    by (simp add: comp_def)
  have second: "cancelBooking ?d1 i = (Inr (?f b), ?d1)"
    using update_single_found [OF row, of ?f] again
    by (simp add: cancelBooking_def)
  show ?thesis using first row others second by blast
qed

theorem cancelBooking_idempotent_witness:
  "filter (\<lambda>x. booking_id x = ''B1'')
      (bookings_table (example_db (Some 2)
         [example_booking ''B1'' ''2025-06-01'' ''active'',
          example_booking ''B2'' ''2025-06-01'' ''active'']))
     = [example_booking ''B1'' ''2025-06-01'' ''active'']
   \<and> cancelBooking (example_db (Some 2)
         [example_booking ''B1'' ''2025-06-01'' ''active'',
          example_booking ''B2'' ''2025-06-01'' ''active'']) ''B1''
       = (Inr (example_booking ''B1'' ''2025-06-01'' ''cancel''),
          example_db (Some 2)
            [example_booking ''B1'' ''2025-06-01'' ''cancel'',
             example_booking ''B2'' ''2025-06-01'' ''active''])
   \<and> cancelBooking (example_db (Some 2)
         [example_booking ''B1'' ''2025-06-01'' ''cancel'',
          example_booking ''B2'' ''2025-06-01'' ''active'']) ''B1''
       = (Inr (example_booking ''B1'' ''2025-06-01'' ''cancel''),
          example_db (Some 2)
            [example_booking ''B1'' ''2025-06-01'' ''cancel'',
             example_booking ''B2'' ''2025-06-01'' ''active''])"
  using cancelBooking_idempotent [of "''B1''" "example_db (Some 2)
         [example_booking ''B1'' ''2025-06-01'' ''active'',
          example_booking ''B2'' ''2025-06-01'' ''active'']"
         "example_booking ''B1'' ''2025-06-01'' ''active''"]
  by (simp add: example_db_def example_booking_def cancelBooking_def update_single_def
        single_def)

text \<open>
  An id that matches no row: the service returns the failure
  \<open>Failed to cancel booking: ...\<close> with the client's message, and the table is unchanged.
\<close>

lemma cancelBooking_missing:
  assumes "filter (\<lambda>x. booking_id x = i) (bookings_table d) = []"
  shows "cancelBooking d i = (Inl (CancelFailed (single_error d)), d)"
  by (simp add: cancelBooking_def update_single_missing [OF assms])

lemma cancel_controller_missing:
  assumes "uuidRegex_test i" and "filter (\<lambda>x. booking_id x = i) (bookings_table d) = []"
  shows "BookingController_cancelBooking d i = (cancel_failed (CancelFailed (single_error d)), d)"
  using assms(1) cancelBooking_missing [OF assms(2)]
  by (simp add: BookingController_cancelBooking_def)

text \<open>
  C9. Cancelling a well-formed id that matches no row, on an empty table. The service
  fails and the table is unchanged, but the handler answers 500 and not 404: it looks
  for \<open>not found\<close> in a message that starts with \<open>Failed to cancel booking\<close> and goes on
  with the store client's text for an empty result.
\<close>

theorem cancel_missing_booking_answers_500:
  "BookingController_cancelBooking (example_db (Some 2) [])
      ''11111111-1111-4111-8111-111111111111''
     = (failure 500
          ''Failed to cancel booking: JSON object requested, multiple (or no) rows returned'',
        example_db (Some 2) [])"
  by (simp add: BookingController_cancelBooking_def cancelBooking_def update_single_def
        single_def example_db_def uuidRegex_test_def is_hex_def cancel_failed_def)

section \<open>Creating and updating\<close>

lemma bookingsToInsert_length: "length (bookingsToInsert uuids nows mb k dts) = length dts"
  by (induction dts arbitrary: k) auto


lemma bookingsToInsert_nth:
  "j < length dts \<Longrightarrow>
     bookingsToInsert uuids nows mb k dts ! j =
       \<lparr>booking_id = uuids (k + j), user_id = mb_user_id mb, hotel_id = mb_hotel_id mb,
        room_id = mb_room_id mb, date = dts ! j, price = mb_price mb,
        booking_note = note_or_null (mb_note mb), status = ''active'', create_at = nows (k + j)\<rparr>"
proof (induction dts arbitrary: k j)
  case Nil
  then show ?case by simp
next
  case (Cons dt dts)
  show ?case
  proof (cases j)
    case 0
    then show ?thesis by simp
  next
    case (Suc j')
    with Cons.prems have "j' < length dts" by simp
    from Cons.IH [OF this, of "Suc k"] Suc show ?thesis by simp
  qed
qed


lemma createBooking_cases:
  "createBooking uuid now d bd = (res, d') \<Longrightarrow>
     (\<exists>e. res = Inl e \<and> d' = d)
     \<or> (res = Inr \<lparr>booking_id = uuid, user_id = bd_user_id bd, hotel_id = bd_hotel_id bd,
                    room_id = bd_room_id bd, date = bd_date bd, price = bd_price bd,
                    booking_note = note_or_null (bd_note bd), status = ''active'',
                    create_at = now\<rparr>
         \<and> d' = d\<lparr>bookings_table := bookings_table d @
                  [\<lparr>booking_id = uuid, user_id = bd_user_id bd, hotel_id = bd_hotel_id bd,
                    room_id = bd_room_id bd, date = bd_date bd, price = bd_price bd,
                    booking_note = note_or_null (bd_note bd), status = ''active'',
                    create_at = now\<rparr>]\<rparr>
         \<and> (\<exists>a. checkRoomAvailability d (bd_room_id bd) (bd_date bd) None = Inr a \<and> isAvailable a))"
  by (auto simp: createBooking_def Let_def split: sum.splits if_splits)

lemma createMultipleBookings_cases:
  "createMultipleBookings uuids nows d mb = (res, d') \<Longrightarrow>
     (\<exists>e. res = Inl e \<and> d' = d)
     \<or> (res = Inr (bookingsToInsert uuids nows mb 0 (mb_dates mb))
         \<and> d' = d\<lparr>bookings_table := bookings_table d @ bookingsToInsert uuids nows mb 0 (mb_dates mb)\<rparr>
         \<and> check_dates d (mb_room_id mb) (mb_dates mb) [] = Inr [])"
  by (auto simp: createMultipleBookings_def Let_def split: sum.splits if_splits)

text \<open>
  C10. A row inserted by \<open>createBooking\<close> or \<open>createMultipleBookings\<close> has status
  \<open>active\<close> and the id that \<open>uuidv4()\<close> gave for it in that call (the row of index \<open>k\<close>
  of a multi-date request gets the \<open>k\<close>-th), and its note is null when the supplied
  note is absent or the empty string and the supplied note otherwise. The rows returned
  are the rows appended to the table; a failed call appends nothing.
\<close>

theorem inserted_rows_active_fresh_id_null_note:
  "(createBooking uuid now d bd = (Inr row, d') \<longrightarrow>
      bookings_table d' = bookings_table d @ [row]
      \<and> status row = ''active'' \<and> booking_id row = uuid
      \<and> booking_note row =
          (if bd_note bd = None \<or> bd_note bd = Some [] then None else bd_note bd))
   \<and> (createMultipleBookings uuids nows d mb = (Inr rows, d') \<longrightarrow>
      bookings_table d' = bookings_table d @ rows
      \<and> length rows = length (mb_dates mb)
      \<and> (\<forall>k<length rows.
            status (rows ! k) = ''active'' \<and> booking_id (rows ! k) = uuids k
            \<and> date (rows ! k) = mb_dates mb ! k
            \<and> booking_note (rows ! k) =
                (if mb_note mb = None \<or> mb_note mb = Some [] then None else mb_note mb)))
   \<and> (createBooking uuid now d bd = (Inl e, d') \<longrightarrow> d' = d)
   \<and> (createMultipleBookings uuids nows d mb = (Inl e, d') \<longrightarrow> d' = d)"
proof -
  have one: "createBooking uuid now d bd = (Inr row, d') \<longrightarrow>
      bookings_table d' = bookings_table d @ [row]
      \<and> status row = ''active'' \<and> booking_id row = uuid
      \<and> booking_note row =
          (if bd_note bd = None \<or> bd_note bd = Some [] then None else bd_note bd)"
  proof
    assume a: "createBooking uuid now d bd = (Inr row, d')"
    from createBooking_cases [OF a]
    show "bookings_table d' = bookings_table d @ [row]
      \<and> status row = ''active'' \<and> booking_id row = uuid
      \<and> booking_note row =
          (if bd_note bd = None \<or> bd_note bd = Some [] then None else bd_note bd)"
      by (auto simp: note_or_null_def split: option.splits)
  qed
  have many: "createMultipleBookings uuids nows d mb = (Inr rows, d') \<longrightarrow>
      bookings_table d' = bookings_table d @ rows
      \<and> length rows = length (mb_dates mb)
      \<and> (\<forall>k<length rows.
            status (rows ! k) = ''active'' \<and> booking_id (rows ! k) = uuids k
            \<and> date (rows ! k) = mb_dates mb ! k
            \<and> booking_note (rows ! k) =
                (if mb_note mb = None \<or> mb_note mb = Some [] then None else mb_note mb))"
  proof
    assume a: "createMultipleBookings uuids nows d mb = (Inr rows, d')"
    from createMultipleBookings_cases [OF a]
    have rows: "rows = bookingsToInsert uuids nows mb 0 (mb_dates mb)"
      and d': "d' = d\<lparr>bookings_table := bookings_table d @ rows\<rparr>" by auto
    have len: "length rows = length (mb_dates mb)"
      by (simp add: rows bookingsToInsert_length)
    have each: "\<forall>k<length rows.
            status (rows ! k) = ''active'' \<and> booking_id (rows ! k) = uuids k
            \<and> date (rows ! k) = mb_dates mb ! k
            \<and> booking_note (rows ! k) =
                (if mb_note mb = None \<or> mb_note mb = Some [] then None else mb_note mb)"
      using len by (auto simp: rows bookingsToInsert_nth note_or_null_def split: option.splits)
    show "bookings_table d' = bookings_table d @ rows
      \<and> length rows = length (mb_dates mb)
      \<and> (\<forall>k<length rows.
            status (rows ! k) = ''active'' \<and> booking_id (rows ! k) = uuids k
            \<and> date (rows ! k) = mb_dates mb ! k
            \<and> booking_note (rows ! k) =
                (if mb_note mb = None \<or> mb_note mb = Some [] then None else mb_note mb))"
      using d' len each by simp
  qed
  have one_failed: "createBooking uuid now d bd = (Inl e, d') \<longrightarrow> d' = d"
    using createBooking_cases [of uuid now d bd "Inl e" d'] by auto
  have many_failed: "createMultipleBookings uuids nows d mb = (Inl e, d') \<longrightarrow> d' = d"
    using createMultipleBookings_cases [of uuids nows d mb "Inl e" d'] by auto
  show ?thesis by (intro conjI one many one_failed many_failed)
qed

theorem inserted_rows_active_fresh_id_null_note_witness:
  "createBooking ''N0'' ''2025-05-01T00:00:00.000Z'' (example_db (Some 2) []) (example_data (Some []))
     = (Inr (example_booking ''N0'' ''2025-06-01'' ''active''),
        example_db (Some 2) [example_booking ''N0'' ''2025-06-01'' ''active''])
   \<and> status (example_booking ''N0'' ''2025-06-01'' ''active'') = ''active''
   \<and> booking_id (example_booking ''N0'' ''2025-06-01'' ''active'') = ''N0''
   \<and> booking_note (example_booking ''N0'' ''2025-06-01'' ''active'') = None
   \<and> createMultipleBookings example_uuids example_nows (example_db (Some 2) [])
        (example_multi [''2025-06-02'', ''2025-06-03''])
     = (Inr [(example_booking ''N0'' ''2025-06-02'' ''active'')\<lparr>price := 500\<rparr>,
             (example_booking ''N1'' ''2025-06-03'' ''active'')\<lparr>price := 500\<rparr>],
        example_db (Some 2)
            [(example_booking ''N0'' ''2025-06-02'' ''active'')\<lparr>price := 500\<rparr>,
             (example_booking ''N1'' ''2025-06-03'' ''active'')\<lparr>price := 500\<rparr>])"
  using inserted_rows_active_fresh_id_null_note
    [of "''N0''" "''2025-05-01T00:00:00.000Z''" "example_db (Some 2) []" "example_data (Some [])"
        "example_booking ''N0'' ''2025-06-01'' ''active''"
        "example_db (Some 2) [example_booking ''N0'' ''2025-06-01'' ''active'']"
        example_uuids example_nows "example_multi [''2025-06-02'', ''2025-06-03'']"
        "[(example_booking ''N0'' ''2025-06-02'' ''active'')\<lparr>price := 500\<rparr>,
             (example_booking ''N1'' ''2025-06-03'' ''active'')\<lparr>price := 500\<rparr>]"]
  by (simp add: createBooking_def createMultipleBookings_def checkRoomAvailability_def
        example_db_def example_room_def example_booking_def example_data_def example_multi_def
        example_uuids_def example_nows_def to_number_def note_or_null_def Let_def
        show_nat.simps)

lemma checkRoomAvailability_room:
  assumes "rooms_table d rid = Some rm"
  shows "checkRoomAvailability d rid dt None =
           Inr \<lparr>isAvailable = (int (active_count d rid dt) < to_number (total_rooms rm)),
                totalRooms = total_rooms rm,
                currentBookings = active_count d rid dt,
                availableRooms = to_number (total_rooms rm) - int (active_count d rid dt)\<rparr>"
  using assms by (simp add: checkRoomAvailability_def active_count_def Let_def)

lemma checkRoomAvailability_no_room:
  assumes "rooms_table d rid = None"
  shows "checkRoomAvailability d rid dt ex = Inl (RoomNotFound (single_error d))"
  using assms by (simp add: checkRoomAvailability_def)

text \<open>
  C8. For a room with inventory set and not zero both checks succeed. The engine counts
  the rows of the room and date with status \<open>active\<close>; the check of \<open>RoomsService\<close>
  counts rows of the room with status \<open>confirmed\<close> or \<open>checked_in\<close>. On every table
  with an active booking for the room and date and no row of status \<open>confirmed\<close> or
  \<open>checked_in\<close> the two differ: the engine counts at least one booking and
  \<open>RoomsService\<close> none, and the engine reports fewer available rooms.
\<close>

theorem availability_status_vocabularies_differ:
  assumes "rooms_table d rid = Some rm" and "total_rooms rm = Some n" and "n \<noteq> 0"
  shows "\<exists>a ra. checkRoomAvailability d rid dt None = Inr a
           \<and> RoomsService_checkRoomAvailability overlaps d rid checkIn checkOut = Inr ra
           \<and> currentBookings a =
               length (filter (\<lambda>b. room_id b = rid \<and> date b = dt \<and> status b = ''active'')
                         (bookings_table d))
           \<and> ra_bookedRooms ra =
               length (filter (\<lambda>b. room_id b = rid
                                 \<and> (status b = ''confirmed'' \<or> status b = ''checked_in'')
                                 \<and> overlaps b checkIn checkOut) (bookings_table d))
           \<and> ((\<forall>b\<in>set (bookings_table d). status b \<noteq> ''confirmed'' \<and> status b \<noteq> ''checked_in'')
                \<and> 0 < active_count d rid dt
              \<longrightarrow> ra_bookedRooms ra = 0 \<and> 0 < currentBookings a
                  \<and> availableRooms a < ra_availableRooms ra)"
proof -
  let ?booked = "length (filter (\<lambda>b. room_id b = rid
                                 \<and> (status b = ''confirmed'' \<or> status b = ''checked_in'')
                                 \<and> overlaps b checkIn checkOut) (bookings_table d))"
  let ?ra = "\<lparr>ra_roomId = rid, ra_roomName = (name_th rm, name_en rm), ra_hotelName = hotels rm,
              ra_totalRooms = n, ra_bookedRooms = ?booked,
              ra_availableRooms = max 0 (n - int ?booked),
              ra_isAvailable = (n - int ?booked > 0),
              ra_checkInDate = checkIn, ra_checkOutDate = checkOut\<rparr>"
  let ?a = "\<lparr>isAvailable = (int (active_count d rid dt) < n), totalRooms = Some n,
             currentBookings = active_count d rid dt,
             availableRooms = n - int (active_count d rid dt)\<rparr>"
  have engine: "checkRoomAvailability d rid dt None = Inr ?a"
    using checkRoomAvailability_room [OF assms(1), of dt] assms(2) by (simp add: to_number_def)
  have rooms: "RoomsService_checkRoomAvailability overlaps d rid checkIn checkOut = Inr ?ra"
    using assms by (simp add: RoomsService_checkRoomAvailability_def Let_def)
  have none: "?booked = 0"
    if "\<forall>b\<in>set (bookings_table d). status b \<noteq> ''confirmed'' \<and> status b \<noteq> ''checked_in''"
    using that by (auto simp: filter_empty_conv)
  have diff: "ra_bookedRooms ?ra = 0 \<and> 0 < currentBookings ?a
                  \<and> availableRooms ?a < ra_availableRooms ?ra"
    if "\<forall>b\<in>set (bookings_table d). status b \<noteq> ''confirmed'' \<and> status b \<noteq> ''checked_in''"
      and "0 < active_count d rid dt"
    using none [OF that(1)] that(2) by simp
  show ?thesis
    apply (rule exI [of _ ?a])
    apply (rule exI [of _ ?ra])
    using engine rooms diff by (simp add: active_count_def)
qed

theorem availability_status_vocabularies_differ_witness:
  "rooms_table (example_db (Some 2) [example_booking ''B1'' ''2025-06-01'' ''active'']) ''R1''
     = Some (example_room (Some 2))
   \<and> total_rooms (example_room (Some 2)) = Some 2 \<and> (2::int) \<noteq> 0
   \<and> list_all (\<lambda>b. status b \<noteq> ''confirmed'' \<and> status b \<noteq> ''checked_in'')
        (bookings_table (example_db (Some 2) [example_booking ''B1'' ''2025-06-01'' ''active'']))
   \<and> 0 < active_count (example_db (Some 2) [example_booking ''B1'' ''2025-06-01'' ''active''])
           ''R1'' ''2025-06-01''
   \<and> checkRoomAvailability (example_db (Some 2) [example_booking ''B1'' ''2025-06-01'' ''active''])
        ''R1'' ''2025-06-01'' None
      = Inr \<lparr>isAvailable = True, totalRooms = Some 2, currentBookings = 1, availableRooms = 1\<rparr>
   \<and> RoomsService_checkRoomAvailability (\<lambda>b ci co. True)
        (example_db (Some 2) [example_booking ''B1'' ''2025-06-01'' ''active''])
        ''R1'' ''2025-06-01'' ''2025-06-01''
      = Inr \<lparr>ra_roomId = ''R1'', ra_roomName = (''R1'', ''R1''), ra_hotelName = None,
             ra_totalRooms = 2, ra_bookedRooms = 0, ra_availableRooms = 2,
             ra_isAvailable = True, ra_checkInDate = ''2025-06-01'',
             ra_checkOutDate = ''2025-06-01''\<rparr>"
  using availability_status_vocabularies_differ
    [of "example_db (Some 2) [example_booking ''B1'' ''2025-06-01'' ''active'']" "''R1''"
        "example_room (Some 2)" 2 "''2025-06-01''" "\<lambda>b ci co. True" "''2025-06-01''"
        "''2025-06-01''"]
  by (simp add: checkRoomAvailability_def RoomsService_checkRoomAvailability_def
        example_db_def example_room_def example_booking_def to_number_def active_count_def
        Let_def)





















section \<open>Validation in the controller\<close>

lemma uuidRegex_test_empty: "\<not> uuidRegex_test []"
  by (simp add: uuidRegex_test_def)

lemma user_id_named:
  assumes "bad_identifier (cb_user_id body)"
  shows "''user_id is required'' \<in> set (create_errors parseDate today body)
         \<or> ''user_id must be valid UUID'' \<in> set (create_errors parseDate today body)"
proof (cases "truthy (cb_user_id body)")
  case True
  with assms have "fails_uuid (cb_user_id body)"
    by (auto simp: fails_uuid_def bad_identifier_def truthy_def split: option.splits)
  then have "''user_id must be valid UUID''
               \<in> set (if fails_uuid (cb_user_id body) then [''user_id must be valid UUID''] else [])"
    by simp
  then show ?thesis unfolding create_errors_def set_append Un_iff by blast
next
  case False
  then have "''user_id is required''
               \<in> set (if \<not> truthy (cb_user_id body) then [''user_id is required''] else [])"
    by simp
  then show ?thesis unfolding create_errors_def set_append Un_iff by blast
qed

lemma hotel_id_named:
  assumes "bad_identifier (cb_hotel_id body)"
  shows "''hotel_id is required'' \<in> set (create_errors parseDate today body)
         \<or> ''hotel_id must be valid UUID'' \<in> set (create_errors parseDate today body)"
proof (cases "truthy (cb_hotel_id body)")
  case True
  with assms have "fails_uuid (cb_hotel_id body)"
    by (auto simp: fails_uuid_def bad_identifier_def truthy_def split: option.splits)
  then have "''hotel_id must be valid UUID''
               \<in> set (if fails_uuid (cb_hotel_id body) then [''hotel_id must be valid UUID''] else [])"
    by simp
  then show ?thesis unfolding create_errors_def set_append Un_iff by blast
next
  case False
  then have "''hotel_id is required''
               \<in> set (if \<not> truthy (cb_hotel_id body) then [''hotel_id is required''] else [])"
    by simp
  then show ?thesis unfolding create_errors_def set_append Un_iff by blast
qed

lemma room_id_named:
  assumes "bad_identifier (cb_room_id body)"
  shows "''room_id is required'' \<in> set (create_errors parseDate today body)
         \<or> ''room_id must be valid UUID'' \<in> set (create_errors parseDate today body)"
proof (cases "truthy (cb_room_id body)")
  case True
  with assms have "fails_uuid (cb_room_id body)"
    by (auto simp: fails_uuid_def bad_identifier_def truthy_def split: option.splits)
  then have "''room_id must be valid UUID''
               \<in> set (if fails_uuid (cb_room_id body) then [''room_id must be valid UUID''] else [])"
    by simp
  then show ?thesis unfolding create_errors_def set_append Un_iff by blast
next
  case False
  then have "''room_id is required''
               \<in> set (if \<not> truthy (cb_room_id body) then [''room_id is required''] else [])"
    by simp
  then show ?thesis unfolding create_errors_def set_append Un_iff by blast
qed

lemma price_named:
  assumes "bad_price (cb_price body)"
  shows "''price must be greater than 0'' \<in> set (create_errors parseDate today body)"
proof -
  from assms have "price_rejected (cb_price body)"
    by (auto simp: bad_price_def price_rejected_def split: option.splits)
  then have "''price must be greater than 0''
               \<in> set (if price_rejected (cb_price body)
                      then [''price must be greater than 0''] else [])"
    by simp
  then show ?thesis unfolding create_errors_def set_append Un_iff by blast
qed

text \<open>
  A request that passes the validation has every field the service reads, so
  \<open>BookingController_createBooking\<close> never answers \<open>internal_error\<close>.
\<close>

lemma create_fields_present:
  assumes "create_errors parseDate today body = []"
  shows "\<exists>u h r p. cb_user_id body = Some u \<and> cb_hotel_id body = Some h
           \<and> cb_room_id body = Some r \<and> cb_price body = Some p"
proof -
  have "\<not> bad_identifier (cb_user_id body)"
    using user_id_named [of body parseDate today] assms by auto
  moreover have "\<not> bad_identifier (cb_hotel_id body)"
    using hotel_id_named [of body parseDate today] assms by auto
  moreover have "\<not> bad_identifier (cb_room_id body)"
    using room_id_named [of body parseDate today] assms by auto
  moreover have "\<not> bad_price (cb_price body)"
    using price_named [of body parseDate today] assms by auto
  ultimately show ?thesis
    by (auto simp: bad_identifier_def bad_price_def split: option.splits)
qed




















section \<open>The capacity invariant\<close>









lemma count_split_by_id:
  "length (filter p rows)
     = length (filter (\<lambda>x. p x \<and> booking_id x \<noteq> i) rows)
       + length (filter p (filter (\<lambda>x. booking_id x = i) rows))"
  by (induction rows) auto




















end
